theory Spec2Isabelle
  imports Complex_Main
begin

section \<open>Sensor acquisition of the OPC UA sensor server\<close>

text \<open>
  A shallow embedding of \<^verbatim>\<open>opcua_server.py\<close>: the class \<^verbatim>\<open>SensorReader\<close>
  (\<^verbatim>\<open>__init__\<close>, \<^verbatim>\<open>read_dht11\<close>, \<^verbatim>\<open>read_ina219\<close>, \<^verbatim>\<open>read_ultrasonic\<close>) and the method
  \<^verbatim>\<open>OPCUAServer.update_values\<close>.

  Python floats are idealised as \<^typ>\<open>real\<close>: every arithmetic step is exact, the literal
  \<^verbatim>\<open>0.1\<close> is one tenth and \<^verbatim>\<open>2.54\<close> is 254/100. The status codes are the integers the
  source returns (0 OK, 1 read error or timeout, 2 sensor error, 3 out of range).
\<close>

subsection \<open>Failures of the device libraries\<close>

text \<open>
  The handlers of the source distinguish \<^verbatim>\<open>RuntimeError\<close> (with its subclasses) from every
  other subclass of \<^verbatim>\<open>Exception\<close>. A device access either delivers a value (\<open>Inr\<close>) or
  raises (\<open>Inl\<close>). What no handler of the source catches (\<^verbatim>\<open>KeyboardInterrupt\<close>,
  \<^verbatim>\<open>SystemExit\<close>) is no failure of a device and stays outside the model.
\<close>

datatype exn = RuntimeError | OtherException

subsection \<open>The devices\<close>

text \<open>
  \<^verbatim>\<open>adafruit_dht.DHT11\<close>: the properties \<^verbatim>\<open>temperature\<close> and \<^verbatim>\<open>humidity\<close> deliver a
  number or \<^verbatim>\<open>None\<close>, or raise.
\<close>

record dht_dev =
  temperature :: "exn + real option"
  humidity :: "exn + real option"

text \<open>
  \<^verbatim>\<open>adafruit_ina219.INA219\<close>: \<^verbatim>\<open>bus_voltage\<close> in volts, \<^verbatim>\<open>current\<close> in milliamperes,
  \<^verbatim>\<open>power\<close> in milliwatts.
\<close>

record ina_dev =
  bus_voltage :: "exn + real"
  current :: "exn + real"
  power :: "exn + real"

text \<open>A local date and time, as \<^verbatim>\<open>datetime.now()\<close> delivers it.\<close>

record datetime =
  year :: nat
  month :: nat
  day :: nat
  hour :: nat
  minute :: nat
  second :: nat

text \<open>
  The world outside the process, as the ranging read and the publishing step see it:
  \<^item> \<open>output_fault k\<close>: what the \<open>k\<close>-th call of \<^verbatim>\<open>GPIO.output\<close> raises, if it raises;
  \<^item> \<open>echo k\<close>: what the \<open>k\<close>-th call of \<^verbatim>\<open>GPIO.input(ECHO_PIN)\<close> delivers;
  \<^item> \<open>clock k\<close>: what the \<open>k\<close>-th reading of the system clock delivers through
    \<^verbatim>\<open>time.time()\<close>, and \<open>calendar k\<close> what it delivers through \<^verbatim>\<open>datetime.now()\<close>;
  \<^item> \<open>polls\<close>, \<open>ticks\<close>: how many echo samples and clock readings have been taken;
  \<^item> \<open>trig\<close>: the levels written to the trigger pin so far, the latest first.
\<close>

record world =
  output_fault :: "nat \<Rightarrow> exn option"
  echo :: "nat \<Rightarrow> exn + int"
  clock :: "nat \<Rightarrow> real"
  calendar :: "nat \<Rightarrow> datetime"
  polls :: nat
  ticks :: nat
  trig :: "bool list"

definition GPIO_output :: "bool \<Rightarrow> world \<Rightarrow> exn + world" where
  "GPIO_output level w =
     (case output_fault w (length (trig w)) of
        Some e \<Rightarrow> Inl e
      | None \<Rightarrow> Inr (w\<lparr>trig := level # trig w\<rparr>))"

definition GPIO_input :: "world \<Rightarrow> (exn + int) \<times> world" where
  "GPIO_input w = (echo w (polls w), w\<lparr>polls := Suc (polls w)\<rparr>)"

definition time_time :: "world \<Rightarrow> real \<times> world" where
  "time_time w = (clock w (ticks w), w\<lparr>ticks := Suc (ticks w)\<rparr>)"

definition datetime_now :: "world \<Rightarrow> datetime \<times> world" where
  "datetime_now w = (calendar w (ticks w), w\<lparr>ticks := Suc (ticks w)\<rparr>)"

subsection \<open>SensorReader\<close>

text \<open>
  The fields of \<^verbatim>\<open>SensorReader\<close>: a device handle or \<^verbatim>\<open>None\<close> for each bus device, and
  the flag of the ranging sensor.
\<close>

record sensor_reader =
  dht_sensor :: "dht_dev option"
  ina219 :: "ina_dev option"
  ultrasonic_enabled :: bool

text \<open>
  \<^verbatim>\<open>__init__\<close>: each of the three initialisations runs in its own \<^verbatim>\<open>try\<close>; a failure is
  logged and recorded in the field. The arguments are the outcomes of the three hardware
  initialisations.
\<close>

definition SensorReader_init ::
  "exn + dht_dev \<Rightarrow> exn + ina_dev \<Rightarrow> exn option \<Rightarrow> sensor_reader" where
  "SensorReader_init dht ina gpio =
     \<lparr>dht_sensor = (case dht of Inl e \<Rightarrow> None | Inr dev \<Rightarrow> Some dev),
      ina219 = (case ina of Inl e \<Rightarrow> None | Inr dev \<Rightarrow> Some dev),
      ultrasonic_enabled = (case gpio of Some e \<Rightarrow> False | None \<Rightarrow> True)\<rparr>"

text \<open>
  \<^verbatim>\<open>read_dht11\<close>. The two handlers: \<^verbatim>\<open>except RuntimeError\<close> returns status 1,
  \<^verbatim>\<open>except Exception\<close> returns status 2.
\<close>

fun dht11_handler :: "exn \<Rightarrow> real \<times> real \<times> int" where
  "dht11_handler RuntimeError = (0, 0, 1)"
| "dht11_handler OtherException = (0, 0, 2)"

definition read_dht11 :: "sensor_reader \<Rightarrow> real \<times> real \<times> int" where
  "read_dht11 self =
     (case dht_sensor self of
        None \<Rightarrow> (0, 0, 2)
      | Some dev \<Rightarrow>
          (case temperature dev of
             Inl e \<Rightarrow> dht11_handler e
           | Inr temperature_c \<Rightarrow>
               (case humidity dev of
                  Inl e \<Rightarrow> dht11_handler e
                | Inr humidity_v \<Rightarrow>
                    (case (temperature_c, humidity_v) of
                       (Some t, Some h) \<Rightarrow> (t, h, 0)
                     | _ \<Rightarrow> (0, 0, 1)))))"

text \<open>\<^verbatim>\<open>read_ina219\<close>. The single handler \<^verbatim>\<open>except Exception\<close> returns status 2.\<close>

definition read_ina219 :: "sensor_reader \<Rightarrow> real \<times> real \<times> real \<times> int" where
  "read_ina219 self =
     (case ina219 self of
        None \<Rightarrow> (0, 0, 0, 2)
      | Some dev \<Rightarrow>
          (case bus_voltage dev of
             Inl e \<Rightarrow> (0, 0, 0, 2)
           | Inr voltage \<Rightarrow>
               (case current dev of
                  Inl e \<Rightarrow> (0, 0, 0, 2)
                | Inr milliamps \<Rightarrow>
                    (case power dev of
                       Inl e \<Rightarrow> (0, 0, 0, 2)
                     | Inr milliwatts \<Rightarrow>
                         (voltage, milliamps / 1000, milliwatts / 1000, 0)))))"

subsection \<open>The ranging read\<close>

text \<open>
  Both polling loops of \<^verbatim>\<open>read_ultrasonic\<close> have one shape:
  \<^verbatim>\<open>
  while GPIO.input(ECHO_PIN) == level:
      stamp = time.time()
      if stamp - origin > 0.1:
          return 0.0, 1
  \<close>
  with \<open>level = 0\<close>, \<open>origin = timeout_start\<close>, \<open>stamp = pulse_start\<close> in the first and
  \<open>level = 1\<close>, \<open>origin = pulse_start\<close>, \<open>stamp = pulse_end\<close> in the second. A loop ends
  with the last stamp, with the timeout return, or with what the pin access raised; it may
  also run forever, which is the value \<open>None\<close>.
\<close>

datatype poll = Done real world | Timeout world | Raised exn world

partial_function (option) poll_echo :: "int \<Rightarrow> real \<Rightarrow> real \<Rightarrow> world \<Rightarrow> poll option" where
  "poll_echo level origin stamp w =
     (case echo w (polls w) of
        Inl e \<Rightarrow> Some (Raised e (snd (GPIO_input w)))
      | Inr v \<Rightarrow>
          if v = level then
            (if fst (time_time (snd (GPIO_input w))) - origin > 1 / 10
             then Some (Timeout (snd (time_time (snd (GPIO_input w)))))
             else poll_echo level origin (fst (time_time (snd (GPIO_input w))))
                    (snd (time_time (snd (GPIO_input w)))))
          else Some (Done stamp (snd (GPIO_input w))))"

text \<open>
  \<^verbatim>\<open>round(x, 2)\<close> on an exact number: the nearest multiple of 1/100, a tie going to the
  even multiple.
\<close>

definition py_round2 :: "real \<Rightarrow> real" where
  "py_round2 x =
     (let y = x * 100; f = \<lfloor>y\<rfloor>
      in if y - of_int f < 1 / 2 then of_int f / 100
         else if y - of_int f > 1 / 2 then of_int (f + 1) / 100
         else if even f then of_int f / 100 else of_int (f + 1) / 100)"

text \<open>
  \<^verbatim>\<open>read_ultrasonic\<close>: the trigger pulse (the pin set high and, 10 microseconds later, low;
  the sleep between the two writes leaves no trace but in the clock readings that follow),
  the reading of \<^verbatim>\<open>timeout_start\<close>, the two loops, the distance and its range check.
  The single handler \<^verbatim>\<open>except Exception\<close> returns status 2. The result comes with the
  world the call leaves behind; \<open>None\<close> stands for a call that never returns.
\<close>

definition read_ultrasonic :: "sensor_reader \<Rightarrow> world \<Rightarrow> ((real \<times> int) \<times> world) option" where
  "read_ultrasonic self w =
     (if \<not> ultrasonic_enabled self then Some ((0, 2), w)
      else
        case GPIO_output True w of
          Inl e \<Rightarrow> Some ((0, 2), w)
        | Inr w1 \<Rightarrow>
            (case GPIO_output False w1 of
               Inl e \<Rightarrow> Some ((0, 2), w1)
             | Inr w2 \<Rightarrow>
                 (let timeout_start = fst (time_time w2); w3 = snd (time_time w2)
                  in case poll_echo 0 timeout_start timeout_start w3 of
                       None \<Rightarrow> None
                     | Some (Raised e w4) \<Rightarrow> Some ((0, 2), w4)
                     | Some (Timeout w4) \<Rightarrow> Some ((0, 1), w4)
                     | Some (Done pulse_start w4) \<Rightarrow>
                         (case poll_echo 1 pulse_start pulse_start w4 of
                            None \<Rightarrow> None
                          | Some (Raised e w5) \<Rightarrow> Some ((0, 2), w5)
                          | Some (Timeout w5) \<Rightarrow> Some ((0, 1), w5)
                          | Some (Done pulse_end w5) \<Rightarrow>
                              (let pulse_duration = pulse_end - pulse_start;
                                   distance = py_round2 (pulse_duration * 17150)
                               in if 2 \<le> distance \<and> distance \<le> 400
                                  then Some ((distance, 0), w5)
                                  else Some ((0, 3), w5))))))"

subsection \<open>update_values\<close>

text \<open>
  \<^verbatim>\<open>strftime("%Y-%m-%d %H:%M:%S")\<close>: the fields in decimal, padded with zeros to four
  digits (the year) and two digits (the others).
\<close>

definition digit :: "nat \<Rightarrow> char" where
  "digit n = ''0123456789'' ! (n mod 10)"

definition pad2 :: "nat \<Rightarrow> string" where
  "pad2 n = [digit (n div 10), digit n]"

definition pad4 :: "nat \<Rightarrow> string" where
  "pad4 n = [digit (n div 1000), digit (n div 100), digit (n div 10), digit n]"

definition strftime :: "datetime \<Rightarrow> string" where
  "strftime d =
     pad4 (year d) @ ''-'' @ pad2 (month d) @ ''-'' @ pad2 (day d) @ '' '' @
     pad2 (hour d) @ '':'' @ pad2 (minute d) @ '':'' @ pad2 (second d)"

text \<open>
  The first block of \<^verbatim>\<open>update_values\<close> (``Read all sensors''): the three reads, one
  after the other. Only the ranging read touches the world.
\<close>

definition read_all_sensors ::
  "sensor_reader \<Rightarrow> world \<Rightarrow>
     (((real \<times> real \<times> int) \<times> (real \<times> real \<times> real \<times> int) \<times> (real \<times> int)) \<times> world) option" where
  "read_all_sensors self w =
     (let dht = read_dht11 self;
          ina = read_ina219 self
      in case read_ultrasonic self w of
           None \<Rightarrow> None
         | Some (ultrasonic, w1) \<Rightarrow> Some ((dht, ina, ultrasonic), w1))"

text \<open>
  The second block (``Calculate derived values''): Fahrenheit, inches, the uptime from
  \<^verbatim>\<open>time.time()\<close> and the time stamp from \<^verbatim>\<open>datetime.now()\<close>.
\<close>

definition derived_values ::
  "real \<Rightarrow> real \<Rightarrow> real \<Rightarrow> world \<Rightarrow> (real \<times> real \<times> real \<times> string) \<times> world" where
  "derived_values temp_c distance_cm start_time w =
     (let temp_f = temp_c * 9 / 5 + 32;
          distance_in = distance_cm / (254 / 100);
          uptime = fst (time_time w) - start_time;
          w1 = snd (time_time w);
          timestamp = strftime (fst (datetime_now w1));
          w2 = snd (datetime_now w1)
      in ((temp_f, distance_in, uptime, timestamp), w2))"



subsection \<open>What a ranging read observes\<close>

text \<open>
  The hypotheses of the theorems on the ranging read, for the world \<open>w\<close> in which
  \<^verbatim>\<open>read_ultrasonic\<close> is called. There \<^verbatim>\<open>timeout_start\<close> is \<open>clock w (ticks w)\<close>, the
  samples of the first loop are \<open>echo w (polls w)\<close>, \<open>echo w (polls w + 1)\<close>, \dots, and the
  clock reading taken after the \<open>k\<close>-th of them is \<open>clock w (ticks w + 1 + k)\<close>.

  \<open>trigger_ok\<close>: neither write to the trigger pin raises.
\<close>

definition trigger_ok :: "world \<Rightarrow> bool" where
  "trigger_ok w \<longleftrightarrow>
     output_fault w (length (trig w)) = None \<and> output_fault w (Suc (length (trig w))) = None"

text \<open>
  \<open>rising_wait w n\<close>: the first \<open>n\<close> samples are low, and none of the clock readings
  taken after them is more than 100 ms past \<^verbatim>\<open>timeout_start\<close>.
\<close>

definition rising_wait :: "world \<Rightarrow> nat \<Rightarrow> bool" where
  "rising_wait w n \<longleftrightarrow>
     (\<forall>k\<in>{0..<n}. echo w (polls w + k) = Inr 0 \<and>
                  clock w (ticks w + 1 + k) - clock w (ticks w) \<le> 1 / 10)"

text \<open>
  \<open>rising_seen w n\<close>: the first loop ends at its sample number \<open>n\<close>, which is not low,
  after \<open>n\<close> low samples. Then \<^verbatim>\<open>pulse_start\<close> is \<open>clock w (ticks w + n)\<close>.
\<close>

definition rising_seen :: "world \<Rightarrow> nat \<Rightarrow> bool" where
  "rising_seen w n \<longleftrightarrow>
     rising_wait w n \<and> (case echo w (polls w + n) of Inl e \<Rightarrow> False | Inr v \<Rightarrow> v \<noteq> 0)"

text \<open>
  \<open>falling_wait w n m\<close>: after the first loop has ended at sample \<open>n\<close>, the next \<open>m\<close>
  samples are high, and none of the clock readings taken after them is more than 100 ms
  past \<^verbatim>\<open>pulse_start\<close>.
\<close>

definition falling_wait :: "world \<Rightarrow> nat \<Rightarrow> nat \<Rightarrow> bool" where
  "falling_wait w n m \<longleftrightarrow>
     (\<forall>k\<in>{0..<m}. echo w (polls w + n + 1 + k) = Inr 1 \<and>
                  clock w (ticks w + n + 1 + k) - clock w (ticks w + n) \<le> 1 / 10)"

text \<open>
  \<open>falling_seen w n m\<close>: the second loop ends at its sample number \<open>m\<close>, which is not
  high, after \<open>m\<close> high samples. Then \<^verbatim>\<open>pulse_end\<close> is \<open>clock w (ticks w + n + m)\<close>.
\<close>

definition falling_seen :: "world \<Rightarrow> nat \<Rightarrow> nat \<Rightarrow> bool" where
  "falling_seen w n m \<longleftrightarrow>
     falling_wait w n m \<and>
     (case echo w (polls w + n + 1 + m) of Inl e \<Rightarrow> False | Inr v \<Rightarrow> v \<noteq> 1)"

subsection \<open>Sample devices and worlds\<close>

text \<open>
  Concrete inputs for the instances below. \<open>echo_pulse a b\<close> is an echo line that is low
  for \<open>a\<close> samples, high for the next \<open>b\<close> samples and low afterwards;
  \<open>bench_world e c\<close> is a world at its start, with the echo line \<open>e\<close>, the clock \<open>c\<close>
  in seconds, a calendar that shows the whole seconds of the clock (modulo 60) after
  14:05:00 on 9 March 2024, and a trigger pin that never fails.
\<close>

definition echo_pulse :: "nat \<Rightarrow> nat \<Rightarrow> nat \<Rightarrow> exn + int" where
  "echo_pulse a b k = Inr (if a \<le> k \<and> k < a + b then 1 else 0)"

definition bench_calendar :: "real \<Rightarrow> datetime" where
  "bench_calendar t =
     \<lparr>year = 2024, month = 3, day = 9, hour = 14, minute = 5, second = nat \<lfloor>t\<rfloor> mod 60\<rparr>"

definition bench_world :: "(nat \<Rightarrow> exn + int) \<Rightarrow> (nat \<Rightarrow> real) \<Rightarrow> world" where
  "bench_world e c =
     \<lparr>output_fault = (\<lambda>k. None), echo = e, clock = c,
      calendar = (\<lambda>k. bench_calendar (c k)),
      polls = 0, ticks = 0, trig = []\<rparr>"

definition bench_dht :: dht_dev where
  "bench_dht = \<lparr>temperature = Inr (Some 21), humidity = Inr (Some 40)\<rparr>"

definition bench_ina :: ina_dev where
  "bench_ina = \<lparr>bus_voltage = Inr 5, current = Inr (-250), power = Inr 1250\<rparr>"

definition bench_reader :: sensor_reader where
  "bench_reader = SensorReader_init (Inr bench_dht) (Inr bench_ina) None"

text \<open>A reader whose DHT11 delivers no humidity and whose INA219 fails on \<^verbatim>\<open>power\<close>.\<close>

definition partial_reader :: sensor_reader where
  "partial_reader =
     SensorReader_init (Inr \<lparr>temperature = Inr (Some 21), humidity = Inr None\<rparr>)
       (Inr (bench_ina\<lparr>power := Inl OtherException\<rparr>)) None"

section \<open>The polling loop\<close>

text \<open>One iteration of the loop, in each of its four outcomes.\<close>

lemma poll_echo_exit:
  assumes "echo w (polls w) = Inr v" and "v \<noteq> level"
  shows "poll_echo level origin stamp w = Some (Done stamp (w\<lparr>polls := Suc (polls w)\<rparr>))"
  using assms by (subst poll_echo.simps) (simp add: GPIO_input_def)

lemma poll_echo_raise:
  assumes "echo w (polls w) = Inl e"
  shows "poll_echo level origin stamp w = Some (Raised e (w\<lparr>polls := Suc (polls w)\<rparr>))"
  using assms by (subst poll_echo.simps) (simp add: GPIO_input_def)

lemma poll_echo_expire:
  assumes "echo w (polls w) = Inr level" and "clock w (ticks w) - origin > 1 / 10"
  shows "poll_echo level origin stamp w =
           Some (Timeout (w\<lparr>polls := Suc (polls w), ticks := Suc (ticks w)\<rparr>))"
  using assms by (subst poll_echo.simps) (simp add: GPIO_input_def time_time_def)

lemma poll_echo_again:
  assumes "echo w (polls w) = Inr level" and "clock w (ticks w) - origin \<le> 1 / 10"
  shows "poll_echo level origin stamp w =
           poll_echo level origin (clock w (ticks w))
             (w\<lparr>polls := Suc (polls w), ticks := Suc (ticks w)\<rparr>)"
  using assms by (subst poll_echo.simps) (simp add: GPIO_input_def time_time_def)

lemma poll_echo_done:
  assumes "\<forall>k<n. echo w (polls w + k) = Inr level"
    and "\<forall>k<n. clock w (ticks w + k) - origin \<le> 1 / 10"
    and "echo w (polls w + n) = Inr v" and "v \<noteq> level"
  shows "poll_echo level origin stamp w =
           Some (Done (if n = 0 then stamp else clock w (ticks w + n - 1))
                   (w\<lparr>polls := polls w + n + 1, ticks := ticks w + n\<rparr>))"
  using assms
proof (induction n arbitrary: w stamp)
  case 0
  then show ?case by (simp add: poll_echo_exit)
next
  case (Suc n)
  let ?w = "w\<lparr>polls := Suc (polls w), ticks := Suc (ticks w)\<rparr>"
  have e0: "echo w (polls w) = Inr level"
    using Suc.prems(1)[rule_format, of 0] by simp
  have c0: "clock w (ticks w) - origin \<le> 1 / 10"
    using Suc.prems(2)[rule_format, of 0] by simp
  have e: "\<forall>k<n. echo ?w (polls ?w + k) = Inr level"
    using Suc.prems(1) by (auto dest: spec[of _ "Suc k" for k])
  have c: "\<forall>k<n. clock ?w (ticks ?w + k) - origin \<le> 1 / 10"
    using Suc.prems(2) by (auto dest: spec[of _ "Suc k" for k])
  have l: "echo ?w (polls ?w + n) = Inr v"
    using Suc.prems(3) by simp
  show ?case
    unfolding poll_echo_again[OF e0 c0, of stamp]
    by (subst Suc.IH[OF e c l Suc.prems(4)]) simp
qed

lemma poll_echo_raised:
  assumes "\<forall>k<n. echo w (polls w + k) = Inr level"
    and "\<forall>k<n. clock w (ticks w + k) - origin \<le> 1 / 10"
    and "echo w (polls w + n) = Inl e"
  shows "poll_echo level origin stamp w =
           Some (Raised e (w\<lparr>polls := polls w + n + 1, ticks := ticks w + n\<rparr>))"
  using assms
proof (induction n arbitrary: w stamp)
  case 0
  then show ?case by (simp add: poll_echo_raise)
next
  case (Suc n)
  let ?w = "w\<lparr>polls := Suc (polls w), ticks := Suc (ticks w)\<rparr>"
  have e0: "echo w (polls w) = Inr level"
    using Suc.prems(1)[rule_format, of 0] by simp
  have c0: "clock w (ticks w) - origin \<le> 1 / 10"
    using Suc.prems(2)[rule_format, of 0] by simp
  have e: "\<forall>k<n. echo ?w (polls ?w + k) = Inr level"
    using Suc.prems(1) by (auto dest: spec[of _ "Suc k" for k])
  have c: "\<forall>k<n. clock ?w (ticks ?w + k) - origin \<le> 1 / 10"
    using Suc.prems(2) by (auto dest: spec[of _ "Suc k" for k])
  have l: "echo ?w (polls ?w + n) = Inl e"
    using Suc.prems(3) by simp
  show ?case
    unfolding poll_echo_again[OF e0 c0, of stamp]
    by (subst Suc.IH[OF e c l]) simp
qed

lemma poll_echo_timeout:
  assumes "\<forall>k\<le>n. echo w (polls w + k) = Inr level"
    and "\<forall>k<n. clock w (ticks w + k) - origin \<le> 1 / 10"
    and "clock w (ticks w + n) - origin > 1 / 10"
  shows "poll_echo level origin stamp w =
           Some (Timeout (w\<lparr>polls := polls w + n + 1, ticks := ticks w + n + 1\<rparr>))"
  using assms
proof (induction n arbitrary: w stamp)
  case 0
  then show ?case by (simp add: poll_echo_expire)
next
  case (Suc n)
  let ?w = "w\<lparr>polls := Suc (polls w), ticks := Suc (ticks w)\<rparr>"
  have e0: "echo w (polls w) = Inr level"
    using Suc.prems(1)[rule_format, of 0] by simp
  have c0: "clock w (ticks w) - origin \<le> 1 / 10"
    using Suc.prems(2)[rule_format, of 0] by simp
  have e: "\<forall>k\<le>n. echo ?w (polls ?w + k) = Inr level"
    using Suc.prems(1) by (auto dest: spec[of _ "Suc k" for k])
  have c: "\<forall>k<n. clock ?w (ticks ?w + k) - origin \<le> 1 / 10"
    using Suc.prems(2) by (auto dest: spec[of _ "Suc k" for k])
  have l: "clock ?w (ticks ?w + n) - origin > 1 / 10"
    using Suc.prems(3) by simp
  show ?case
    unfolding poll_echo_again[OF e0 c0, of stamp]
    by (subst Suc.IH[OF e c l]) simp
qed


lemma poll_echo_returns:
  assumes "clock w (ticks w + n) - origin > 1 / 10"
  shows "\<exists>p t. ticks w \<le> t \<and>
           ((\<exists>s. poll_echo level origin stamp w = Some (Done s (w\<lparr>polls := p, ticks := t\<rparr>)) \<and>
                 (s = stamp \<or> s - origin \<le> 1 / 10)) \<or>
            poll_echo level origin stamp w = Some (Timeout (w\<lparr>polls := p, ticks := t\<rparr>)) \<or>
            (\<exists>e. poll_echo level origin stamp w = Some (Raised e (w\<lparr>polls := p, ticks := t\<rparr>))))"
  using assms
proof (induction n arbitrary: w stamp)
  case 0
  show ?case
  proof (cases "echo w (polls w)")
    case (Inl e)
    show ?thesis
      by (rule exI[of _ "Suc (polls w)"], rule exI[of _ "ticks w"])
         (simp add: poll_echo_raise[OF Inl])
  next
    case (Inr v)
    show ?thesis
    proof (cases "v = level")
      case True
      with Inr have e0: "echo w (polls w) = Inr level" by simp
      have c0: "clock w (ticks w) - origin > 1 / 10" using 0 by simp
      show ?thesis
        by (rule exI[of _ "Suc (polls w)"], rule exI[of _ "Suc (ticks w)"])
           (simp add: poll_echo_expire[OF e0 c0])
    next
      case False
      show ?thesis
        by (rule exI[of _ "Suc (polls w)"], rule exI[of _ "ticks w"])
           (simp add: poll_echo_exit[OF Inr False])
    qed
  qed
next
  case (Suc n)
  let ?w = "w\<lparr>polls := Suc (polls w), ticks := Suc (ticks w)\<rparr>"
  show ?case
  proof (cases "echo w (polls w)")
    case (Inl e)
    show ?thesis
      by (rule exI[of _ "Suc (polls w)"], rule exI[of _ "ticks w"])
         (simp add: poll_echo_raise[OF Inl])
  next
    case (Inr v)
    show ?thesis
    proof (cases "v = level")
      case False
      show ?thesis
        by (rule exI[of _ "Suc (polls w)"], rule exI[of _ "ticks w"])
           (simp add: poll_echo_exit[OF Inr False])
    next
      case True
      with Inr have e0: "echo w (polls w) = Inr level" by simp
      show ?thesis
      proof (cases "clock w (ticks w) - origin > 1 / 10")
        case True
        show ?thesis
          by (rule exI[of _ "Suc (polls w)"], rule exI[of _ "Suc (ticks w)"])
             (simp add: poll_echo_expire[OF e0 True])
      next
        case False
        then have c0: "clock w (ticks w) - origin \<le> 1 / 10" by simp
        have l: "clock ?w (ticks ?w + n) - origin > 1 / 10"
          using Suc.prems by simp
        from Suc.IH[OF l, of "clock w (ticks w)"]
        obtain p t where t: "ticks ?w \<le> t"
          and r: "(\<exists>s. poll_echo level origin (clock w (ticks w)) ?w =
                        Some (Done s (?w\<lparr>polls := p, ticks := t\<rparr>)) \<and>
                      (s = clock w (ticks w) \<or> s - origin \<le> 1 / 10)) \<or>
                  poll_echo level origin (clock w (ticks w)) ?w =
                        Some (Timeout (?w\<lparr>polls := p, ticks := t\<rparr>)) \<or>
                  (\<exists>e. poll_echo level origin (clock w (ticks w)) ?w =
                        Some (Raised e (?w\<lparr>polls := p, ticks := t\<rparr>)))"
          by blast
        have w: "?w\<lparr>polls := p, ticks := t\<rparr> = w\<lparr>polls := p, ticks := t\<rparr>" by simp
        have t': "ticks w \<le> t" using t by simp
        show ?thesis
          unfolding poll_echo_again[OF e0 c0, of stamp]
          using r c0 t' unfolding w by blast
      qed
    qed
  qed
qed


section \<open>The ranging read, outcome by outcome\<close>

lemma read_ultrasonic_triggered:
  assumes "ultrasonic_enabled self" and "trigger_ok w"
  shows "read_ultrasonic self w =
     (case poll_echo 0 (clock w (ticks w)) (clock w (ticks w))
             (w\<lparr>trig := False # True # trig w, ticks := Suc (ticks w)\<rparr>) of
        None \<Rightarrow> None
      | Some (Raised e w4) \<Rightarrow> Some ((0, 2), w4)
      | Some (Timeout w4) \<Rightarrow> Some ((0, 1), w4)
      | Some (Done pulse_start w4) \<Rightarrow>
          (case poll_echo 1 pulse_start pulse_start w4 of
             None \<Rightarrow> None
           | Some (Raised e w5) \<Rightarrow> Some ((0, 2), w5)
           | Some (Timeout w5) \<Rightarrow> Some ((0, 1), w5)
           | Some (Done pulse_end w5) \<Rightarrow>
               (if 2 \<le> py_round2 ((pulse_end - pulse_start) * 17150) \<and>
                   py_round2 ((pulse_end - pulse_start) * 17150) \<le> 400
                then Some ((py_round2 ((pulse_end - pulse_start) * 17150), 0), w5)
                else Some ((0, 3), w5))))"
  using assms
  by (simp add: read_ultrasonic_def GPIO_output_def trigger_ok_def time_time_def Let_def
        split: option.splits poll.splits)

lemma read_ultrasonic_trigger_fault:
  assumes "ultrasonic_enabled self" and "\<not> trigger_ok w"
  shows "\<exists>w'. read_ultrasonic self w = Some ((0, 2), w')"
  using assms
  by (auto simp: read_ultrasonic_def GPIO_output_def trigger_ok_def split: option.splits)

lemma rising_loop_done:
  assumes "rising_wait w n" and "echo w (polls w + n) = Inr v" and "v \<noteq> 0"
  shows "poll_echo 0 (clock w (ticks w)) (clock w (ticks w))
           (w\<lparr>trig := tr, ticks := Suc (ticks w)\<rparr>) =
         Some (Done (clock w (ticks w + n))
                 (w\<lparr>trig := tr, polls := polls w + n + 1, ticks := ticks w + n + 1\<rparr>))"
proof -
  let ?u = "w\<lparr>trig := tr, ticks := Suc (ticks w)\<rparr>"
  have e: "\<forall>k<n. echo ?u (polls ?u + k) = Inr 0"
    using assms(1) by (simp add: rising_wait_def)
  have c: "\<forall>k<n. clock ?u (ticks ?u + k) - clock w (ticks w) \<le> 1 / 10"
    using assms(1) by (simp add: rising_wait_def)
  have l: "echo ?u (polls ?u + n) = Inr v"
    using assms(2) by simp
  show ?thesis
    by (subst poll_echo_done[OF e c l assms(3)]) (cases n; simp)
qed


lemma rising_loop_raised:
  assumes "rising_wait w n" and "echo w (polls w + n) = Inl e"
  shows "poll_echo 0 (clock w (ticks w)) (clock w (ticks w))
           (w\<lparr>trig := tr, ticks := Suc (ticks w)\<rparr>) =
         Some (Raised e (w\<lparr>trig := tr, polls := polls w + n + 1, ticks := ticks w + n + 1\<rparr>))"
proof -
  let ?u = "w\<lparr>trig := tr, ticks := Suc (ticks w)\<rparr>"
  have e: "\<forall>k<n. echo ?u (polls ?u + k) = Inr 0"
    using assms(1) by (simp add: rising_wait_def)
  have c: "\<forall>k<n. clock ?u (ticks ?u + k) - clock w (ticks w) \<le> 1 / 10"
    using assms(1) by (simp add: rising_wait_def)
  have l: "echo ?u (polls ?u + n) = Inl e"
    using assms(2) by simp
  show ?thesis
    by (subst poll_echo_raised[OF e c l]) simp
qed

lemma rising_loop_timeout:
  assumes "rising_wait w n" and "echo w (polls w + n) = Inr 0"
    and "clock w (ticks w + 1 + n) - clock w (ticks w) > 1 / 10"
  shows "poll_echo 0 (clock w (ticks w)) (clock w (ticks w))
           (w\<lparr>trig := tr, ticks := Suc (ticks w)\<rparr>) =
         Some (Timeout (w\<lparr>trig := tr, polls := polls w + n + 1, ticks := ticks w + n + 2\<rparr>))"
proof -
  let ?u = "w\<lparr>trig := tr, ticks := Suc (ticks w)\<rparr>"
  have e: "\<forall>k\<le>n. echo ?u (polls ?u + k) = Inr 0"
    using assms(1,2) by (auto simp: rising_wait_def le_less)
  have c: "\<forall>k<n. clock ?u (ticks ?u + k) - clock w (ticks w) \<le> 1 / 10"
    using assms(1) by (simp add: rising_wait_def)
  have l: "clock ?u (ticks ?u + n) - clock w (ticks w) > 1 / 10"
    using assms(3) by simp
  show ?thesis
    by (subst poll_echo_timeout[OF e c l]) simp
qed

lemma falling_loop_done:
  assumes "falling_wait w n m" and "echo w (polls w + n + 1 + m) = Inr v" and "v \<noteq> 1"
  shows "poll_echo 1 (clock w (ticks w + n)) (clock w (ticks w + n))
           (w\<lparr>trig := tr, polls := polls w + n + 1, ticks := ticks w + n + 1\<rparr>) =
         Some (Done (clock w (ticks w + n + m))
                 (w\<lparr>trig := tr, polls := polls w + n + m + 2, ticks := ticks w + n + m + 1\<rparr>))"
proof -
  let ?u = "w\<lparr>trig := tr, polls := polls w + n + 1, ticks := ticks w + n + 1\<rparr>"
  have e: "\<forall>k<m. echo ?u (polls ?u + k) = Inr 1"
    using assms(1) by (simp add: falling_wait_def)
  have c: "\<forall>k<m. clock ?u (ticks ?u + k) - clock w (ticks w + n) \<le> 1 / 10"
    using assms(1) by (simp add: falling_wait_def)
  have l: "echo ?u (polls ?u + m) = Inr v"
    using assms(2) by simp
  show ?thesis
    by (subst poll_echo_done[OF e c l assms(3)]) (cases m; simp add: add.assoc)
qed

lemma falling_loop_raised:
  assumes "falling_wait w n m" and "echo w (polls w + n + 1 + m) = Inl e"
  shows "poll_echo 1 (clock w (ticks w + n)) (clock w (ticks w + n))
           (w\<lparr>trig := tr, polls := polls w + n + 1, ticks := ticks w + n + 1\<rparr>) =
         Some (Raised e
                 (w\<lparr>trig := tr, polls := polls w + n + m + 2, ticks := ticks w + n + m + 1\<rparr>))"
proof -
  let ?u = "w\<lparr>trig := tr, polls := polls w + n + 1, ticks := ticks w + n + 1\<rparr>"
  have e: "\<forall>k<m. echo ?u (polls ?u + k) = Inr 1"
    using assms(1) by (simp add: falling_wait_def)
  have c: "\<forall>k<m. clock ?u (ticks ?u + k) - clock w (ticks w + n) \<le> 1 / 10"
    using assms(1) by (simp add: falling_wait_def)
  have l: "echo ?u (polls ?u + m) = Inl e"
    using assms(2) by simp
  show ?thesis
    by (subst poll_echo_raised[OF e c l]) (simp add: add.assoc)
qed

lemma falling_loop_timeout:
  assumes "falling_wait w n m" and "echo w (polls w + n + 1 + m) = Inr 1"
    and "clock w (ticks w + n + 1 + m) - clock w (ticks w + n) > 1 / 10"
  shows "poll_echo 1 (clock w (ticks w + n)) (clock w (ticks w + n))
           (w\<lparr>trig := tr, polls := polls w + n + 1, ticks := ticks w + n + 1\<rparr>) =
         Some (Timeout
                 (w\<lparr>trig := tr, polls := polls w + n + m + 2, ticks := ticks w + n + m + 2\<rparr>))"
proof -
  let ?u = "w\<lparr>trig := tr, polls := polls w + n + 1, ticks := ticks w + n + 1\<rparr>"
  have e: "\<forall>k\<le>m. echo ?u (polls ?u + k) = Inr 1"
    using assms(1,2) by (auto simp: falling_wait_def le_less)
  have c: "\<forall>k<m. clock ?u (ticks ?u + k) - clock w (ticks w + n) \<le> 1 / 10"
    using assms(1) by (simp add: falling_wait_def)
  have l: "clock ?u (ticks ?u + m) - clock w (ticks w + n) > 1 / 10"
    using assms(3) by simp
  show ?thesis
    by (subst poll_echo_timeout[OF e c l]) (simp add: add.assoc)
qed

lemma rising_seenD:
  assumes "rising_seen w n"
  obtains v where "rising_wait w n" and "echo w (polls w + n) = Inr v" and "v \<noteq> 0"
  using assms by (auto simp: rising_seen_def split: sum.splits)

lemma falling_seenD:
  assumes "falling_seen w n m"
  obtains v where "falling_wait w n m" and "echo w (polls w + n + 1 + m) = Inr v" and "v \<noteq> 1"
  using assms by (auto simp: falling_seen_def split: sum.splits)

lemma read_ultrasonic_rise_raised:
  assumes "ultrasonic_enabled self" and "trigger_ok w"
    and "rising_wait w n" and "echo w (polls w + n) = Inl e"
  shows "read_ultrasonic self w =
           Some ((0, 2), w\<lparr>trig := False # True # trig w,
                            polls := polls w + n + 1, ticks := ticks w + n + 1\<rparr>)"
  unfolding read_ultrasonic_triggered[OF assms(1,2)] rising_loop_raised[OF assms(3,4)]
  by simp

lemma read_ultrasonic_rise_timeout:
  assumes "ultrasonic_enabled self" and "trigger_ok w"
    and "rising_wait w n" and "echo w (polls w + n) = Inr 0"
    and "clock w (ticks w + 1 + n) - clock w (ticks w) > 1 / 10"
  shows "read_ultrasonic self w =
           Some ((0, 1), w\<lparr>trig := False # True # trig w,
                            polls := polls w + n + 1, ticks := ticks w + n + 2\<rparr>)"
  unfolding read_ultrasonic_triggered[OF assms(1,2)] rising_loop_timeout[OF assms(3,4,5)]
  by simp

lemma read_ultrasonic_fall_raised:
  assumes "ultrasonic_enabled self" and "trigger_ok w"
    and "rising_seen w n" and "falling_wait w n m" and "echo w (polls w + n + 1 + m) = Inl e"
  shows "read_ultrasonic self w =
           Some ((0, 2), w\<lparr>trig := False # True # trig w,
                            polls := polls w + n + m + 2, ticks := ticks w + n + m + 1\<rparr>)"
proof -
  from assms(3) obtain v where r: "rising_wait w n" "echo w (polls w + n) = Inr v" "v \<noteq> 0"
    by (rule rising_seenD)
  show ?thesis
    unfolding read_ultrasonic_triggered[OF assms(1,2)] rising_loop_done[OF r]
      option.case poll.case falling_loop_raised[OF assms(4,5)]
    by simp
qed

lemma read_ultrasonic_fall_timeout:
  assumes "ultrasonic_enabled self" and "trigger_ok w"
    and "rising_seen w n" and "falling_wait w n m" and "echo w (polls w + n + 1 + m) = Inr 1"
    and "clock w (ticks w + n + 1 + m) - clock w (ticks w + n) > 1 / 10"
  shows "read_ultrasonic self w =
           Some ((0, 1), w\<lparr>trig := False # True # trig w,
                            polls := polls w + n + m + 2, ticks := ticks w + n + m + 2\<rparr>)"
proof -
  from assms(3) obtain v where r: "rising_wait w n" "echo w (polls w + n) = Inr v" "v \<noteq> 0"
    by (rule rising_seenD)
  show ?thesis
    unfolding read_ultrasonic_triggered[OF assms(1,2)] rising_loop_done[OF r]
      option.case poll.case falling_loop_timeout[OF assms(4,5,6)]
    by simp
qed

lemma read_ultrasonic_measured:
  assumes "ultrasonic_enabled self" and "trigger_ok w"
    and "rising_seen w n" and "falling_seen w n m"
  shows "read_ultrasonic self w =
           Some (if 2 \<le> py_round2 ((clock w (ticks w + n + m) - clock w (ticks w + n)) * 17150) \<and>
                    py_round2 ((clock w (ticks w + n + m) - clock w (ticks w + n)) * 17150) \<le> 400
                 then (py_round2 ((clock w (ticks w + n + m) - clock w (ticks w + n)) * 17150), 0)
                 else (0, 3),
                 w\<lparr>trig := False # True # trig w,
                   polls := polls w + n + m + 2, ticks := ticks w + n + m + 1\<rparr>)"
proof -
  from assms(3) obtain v where r: "rising_wait w n" "echo w (polls w + n) = Inr v" "v \<noteq> 0"
    by (rule rising_seenD)
  from assms(4) obtain v' where f: "falling_wait w n m" "echo w (polls w + n + 1 + m) = Inr v'"
      "v' \<noteq> 1"
    by (rule falling_seenD)
  show ?thesis
    unfolding read_ultrasonic_triggered[OF assms(1,2)] rising_loop_done[OF r]
      option.case poll.case falling_loop_done[OF f]
    by simp
qed


lemma poll_echo_timeout_least:
  assumes "\<forall>k\<le>n. echo w (polls w + k) = Inr level"
    and "clock w (ticks w + n) - origin > 1 / 10"
  shows "\<exists>w'. poll_echo level origin stamp w = Some (Timeout w')"
proof -
  define P where "P k \<longleftrightarrow> clock w (ticks w + k) - origin > 1 / 10" for k
  define n' where "n' = (LEAST k. P k)"
  have "P n" using assms(2) by (simp add: P_def)
  then have late: "P n'" and le: "n' \<le> n"
    unfolding n'_def by (rule LeastI, rule Least_le)
  have early: "\<not> P k" if "k < n'" for k
    using that unfolding n'_def by (rule not_less_Least)
  have e: "\<forall>k\<le>n'. echo w (polls w + k) = Inr level"
    using assms(1) le by auto
  have c: "\<forall>k<n'. clock w (ticks w + k) - origin \<le> 1 / 10"
    using early by (auto simp: P_def not_less)
  have l: "clock w (ticks w + n') - origin > 1 / 10"
    using late by (simp add: P_def)
  show ?thesis
    using poll_echo_timeout[OF e c l, of stamp] by blast
qed

lemma read_ultrasonic_no_rise:
  assumes "ultrasonic_enabled self" and "trigger_ok w"
    and "\<forall>k\<le>n. echo w (polls w + k) = Inr 0"
    and "clock w (ticks w + 1 + n) - clock w (ticks w) > 1 / 10"
  shows "\<exists>w'. read_ultrasonic self w = Some ((0, 1), w')"
proof -
  let ?u = "w\<lparr>trig := False # True # trig w, ticks := Suc (ticks w)\<rparr>"
  have e: "\<forall>k\<le>n. echo ?u (polls ?u + k) = Inr 0"
    using assms(3) by simp
  have l: "clock ?u (ticks ?u + n) - clock w (ticks w) > 1 / 10"
    using assms(4) by simp
  from poll_echo_timeout_least[OF e l, of "clock w (ticks w)"]
  obtain w' where "poll_echo 0 (clock w (ticks w)) (clock w (ticks w)) ?u = Some (Timeout w')"
    by blast
  then show ?thesis
    unfolding read_ultrasonic_triggered[OF assms(1,2)] by simp
qed


lemma poll_echo_total:
  assumes "\<forall>j T. \<exists>k\<ge>j. T < clock w k"
  shows "(\<exists>p t s. poll_echo level origin stamp w = Some (Done s (w\<lparr>polls := p, ticks := t\<rparr>))) \<or>
         (\<exists>w'. poll_echo level origin stamp w = Some (Timeout w')) \<or>
         (\<exists>e w'. poll_echo level origin stamp w = Some (Raised e w'))"
proof -
  from assms obtain k where k: "k \<ge> ticks w" "origin + 1 / 10 < clock w k"
    by blast
  then have "clock w (ticks w + (k - ticks w)) - origin > 1 / 10"
    by simp
  from poll_echo_returns[OF this, of level stamp] show ?thesis
    by blast
qed

lemma read_ultrasonic_returns:
  assumes "\<forall>j T. \<exists>k\<ge>j. T < clock w k"
  shows "\<exists>r. read_ultrasonic self w = Some r"
proof (cases "ultrasonic_enabled self")
  case False
  then show ?thesis by (simp add: read_ultrasonic_def)
next
  case True
  show ?thesis
  proof (cases "trigger_ok w")
    case False
    with True show ?thesis
      using read_ultrasonic_trigger_fault by blast
  next
    case ok: True
    let ?t = "clock w (ticks w)"
    let ?u = "w\<lparr>trig := False # True # trig w, ticks := Suc (ticks w)\<rparr>"
    have progress: "\<forall>j T. \<exists>k\<ge>j. T < clock ?u k"
      using assms by simp
    from poll_echo_total[OF progress, of 0 ?t ?t]
    consider (ended) p t s where
        "poll_echo 0 ?t ?t ?u = Some (Done s (?u\<lparr>polls := p, ticks := t\<rparr>))"
      | (timeout) w' where "poll_echo 0 ?t ?t ?u = Some (Timeout w')"
      | (raised) e w' where "poll_echo 0 ?t ?t ?u = Some (Raised e w')"
      by blast
    then show ?thesis
    proof cases
      case ended
      let ?v = "?u\<lparr>polls := p, ticks := t\<rparr>"
      have progress': "\<forall>j T. \<exists>k\<ge>j. T < clock ?v k"
        using assms by simp
      from poll_echo_total[OF progress', of 1 s s]
      obtain r where "poll_echo 1 s s ?v = Some r"
        by blast
      then show ?thesis
        unfolding read_ultrasonic_triggered[OF True ok] ended option.case poll.case
        by (cases r) simp_all
    next
      case timeout
      then show ?thesis
        unfolding read_ultrasonic_triggered[OF True ok] by simp
    next
      case raised
      then show ?thesis
        unfolding read_ultrasonic_triggered[OF True ok] by simp
    qed
  qed
qed


lemma bench_clock_progress: "\<forall>j T. \<exists>k\<ge>j. T < real k * 3 / 100"
proof (intro allI)
  fix j :: nat and T :: real
  obtain n :: nat where n: "T * 100 / 3 < real n"
    using reals_Archimedean2 by blast
  have "j \<le> max j n" by simp
  moreover have "T < real (max j n) * 3 / 100"
    using n by (simp add: field_simps max_def)
  ultimately show "\<exists>k\<ge>j. T < real k * 3 / 100"
    by blast
qed

section \<open>The claims\<close>

text \<open>
  C4. A port whose hardware initialisation failed in \<^verbatim>\<open>__init__\<close> answers every read with
  status 2 (SensorUnavailable) and a zero reading. No read assigns a field of the reader, so
  the same reader serves every later call; the read does not depend on any device, and the
  ranging read returns the world as it found it: no pin written, no sample and no clock
  reading taken.
\<close>

theorem unavailable_port_reads:
  "read_dht11 (SensorReader_init (Inl e1) ina gpio) = (0, 0, 2) \<and>
   read_ina219 (SensorReader_init dht (Inl e2) gpio') = (0, 0, 0, 2) \<and>
   read_ultrasonic (SensorReader_init dht' ina' (Some e3)) w = Some ((0, 2), w)"
  by (simp add: read_dht11_def read_ina219_def read_ultrasonic_def SensorReader_init_def)

text \<open>
  C9. The power-monitor read of an initialised device that delivers the numbers \<open>v\<close>,
  \<open>c\<close>, \<open>p\<close> returns \<open>(v, c / 1000, p / 1000)\<close> with status 0, whatever their size and
  sign: no range check is applied.
\<close>

theorem ina219_milli_to_base:
  "read_ina219
     (SensorReader_init dht (Inr \<lparr>bus_voltage = Inr v, current = Inr c, power = Inr p\<rparr>) gpio) =
   (v, c / 1000, p / 1000, 0)"
  by (simp add: read_ina219_def SensorReader_init_def)

lemma dht11_handler_zero: "dht11_handler e = (t, h, s) \<Longrightarrow> t = 0 \<and> h = 0"
  by (cases e) auto

lemma read_dht11_zero: "read_dht11 self = (t, h, s) \<Longrightarrow> s \<noteq> 0 \<Longrightarrow> t = 0 \<and> h = 0"
  by (auto simp: read_dht11_def split: option.splits sum.splits dest: dht11_handler_zero)

lemma read_ina219_zero:
  "read_ina219 self = (v, c, p, s) \<Longrightarrow> s \<noteq> 0 \<Longrightarrow> v = 0 \<and> c = 0 \<and> p = 0"
  by (auto simp: read_ina219_def split: option.splits sum.splits)

lemma read_ultrasonic_zero:
  "read_ultrasonic self w = Some ((d, s), w') \<Longrightarrow> s \<noteq> 0 \<Longrightarrow> d = 0"
  by (auto simp: read_ultrasonic_def Let_def split: if_splits option.splits sum.splits poll.splits)

text \<open>
  C6. On every return path of the three reads, a status other than 0 comes with a reading
  whose every number is 0.
\<close>

theorem non_ok_payload_zero:
  "(\<forall>t h s. read_dht11 self = (t, h, s) \<longrightarrow> s \<noteq> 0 \<longrightarrow> t = 0 \<and> h = 0) \<and>
   (\<forall>v c p s. read_ina219 self = (v, c, p, s) \<longrightarrow> s \<noteq> 0 \<longrightarrow> v = 0 \<and> c = 0 \<and> p = 0) \<and>
   (\<forall>d s w'. read_ultrasonic self w = Some ((d, s), w') \<longrightarrow> s \<noteq> 0 \<longrightarrow> d = 0)"
  using read_dht11_zero read_ina219_zero read_ultrasonic_zero by blast

theorem non_ok_payload_zero_witness:
  "snd (snd (read_dht11 partial_reader)) = 1 \<and> fst (read_dht11 partial_reader) = 0 \<and>
   snd (snd (snd (read_ina219 partial_reader))) = 2 \<and> fst (read_ina219 partial_reader) = 0 \<and>
   map_option fst
     (read_ultrasonic partial_reader (bench_world (echo_pulse 1 40) (\<lambda>k. real k / 1000))) =
   Some (0, 3)"
  using non_ok_payload_zero
          [of partial_reader "bench_world (echo_pulse 1 40) (\<lambda>k. real k / 1000)"]
  by (simp add: read_dht11_def read_ina219_def read_ultrasonic_def SensorReader_init_def
        partial_reader_def bench_ina_def bench_world_def echo_pulse_def GPIO_output_def
        GPIO_input_def time_time_def poll_echo.simps py_round2_def Let_def)

text \<open>
  C2. When both echo edges are seen within their timeouts (the first loop ends at its
  sample \<open>n\<close>, the second at its sample \<open>m\<close>), the distance is
  \<open>round((pulse_end - pulse_start) * 17150, 2)\<close>, where \<open>pulse_start\<close> is the clock reading
  number \<open>n\<close> and \<open>pulse_end\<close> the clock reading number \<open>n + m\<close> of the call; the read
  returns the distance with status 0 when it lies in [2, 400], and 0.0 with status 3
  otherwise.
\<close>

theorem ranging_distance:
  assumes "ultrasonic_enabled self" and "trigger_ok w"
    and "rising_seen w n" and "falling_seen w n m"
  shows "map_option fst (read_ultrasonic self w) =
           Some (if 2 \<le> py_round2 ((clock w (ticks w + n + m) - clock w (ticks w + n)) * 17150) \<and>
                    py_round2 ((clock w (ticks w + n + m) - clock w (ticks w + n)) * 17150) \<le> 400
                 then (py_round2 ((clock w (ticks w + n + m) - clock w (ticks w + n)) * 17150), 0)
                 else (0, 3))"
  by (simp add: read_ultrasonic_measured[OF assms])

theorem ranging_distance_witness:
  "ultrasonic_enabled bench_reader \<and>
   trigger_ok (bench_world (echo_pulse 2 3) (\<lambda>k. real k / 1000)) \<and>
   rising_seen (bench_world (echo_pulse 2 3) (\<lambda>k. real k / 1000)) 2 \<and>
   falling_seen (bench_world (echo_pulse 2 3) (\<lambda>k. real k / 1000)) 2 2 \<and>
   map_option fst
     (read_ultrasonic bench_reader (bench_world (echo_pulse 2 3) (\<lambda>k. real k / 1000))) =
   Some (343 / 10, 0)"
proof -
  let ?w = "bench_world (echo_pulse 2 3) (\<lambda>k. real k / 1000)"
  have a: "ultrasonic_enabled bench_reader"
    by (simp add: bench_reader_def SensorReader_init_def)
  have b: "trigger_ok ?w"
    by (simp add: trigger_ok_def bench_world_def)
  have c: "rising_seen ?w 2"
    by (simp add: rising_seen_def rising_wait_def bench_world_def echo_pulse_def
          Ball_def less_Suc_eq eval_nat_numeral)
  have d: "falling_seen ?w 2 2"
    by (simp add: falling_seen_def falling_wait_def bench_world_def echo_pulse_def
          Ball_def less_Suc_eq eval_nat_numeral)
  have r: "py_round2 (343 / 10) = 343 / 10"
    by (simp add: py_round2_def)
  have "map_option fst (read_ultrasonic bench_reader ?w) = Some (343 / 10, 0)"
    using ranging_distance[OF a b c d] r by (simp add: bench_world_def)
  with a b c d show ?thesis by simp
qed

text \<open>
  C10. When the echo line is not low at the first sample of the first loop, the body of
  that loop never runs: the loop takes one sample and no clock reading, and \<open>pulse_start\<close>
  keeps the value of \<open>timeout_start\<close>, the clock reading taken before the first sample. The
  pulse duration of the read is then measured from \<open>timeout_start\<close>.
\<close>

theorem echo_already_high:
  assumes "ultrasonic_enabled self" and "trigger_ok w"
    and "echo w (polls w) = Inr v" and "v \<noteq> 0"
  shows "poll_echo 0 (clock w (ticks w)) (clock w (ticks w))
           (w\<lparr>trig := False # True # trig w, ticks := Suc (ticks w)\<rparr>) =
         Some (Done (clock w (ticks w))
                 (w\<lparr>trig := False # True # trig w, ticks := Suc (ticks w),
                    polls := Suc (polls w)\<rparr>)) \<and>
         (\<forall>m. falling_seen w 0 m \<longrightarrow>
            map_option fst (read_ultrasonic self w) =
              Some (if 2 \<le> py_round2 ((clock w (ticks w + m) - clock w (ticks w)) * 17150) \<and>
                       py_round2 ((clock w (ticks w + m) - clock w (ticks w)) * 17150) \<le> 400
                    then (py_round2 ((clock w (ticks w + m) - clock w (ticks w)) * 17150), 0)
                    else (0, 3)))"
proof
  have "echo (w\<lparr>trig := False # True # trig w, ticks := Suc (ticks w)\<rparr>)
          (polls (w\<lparr>trig := False # True # trig w, ticks := Suc (ticks w)\<rparr>)) = Inr v"
    using assms(3) by simp
  from poll_echo_exit[OF this assms(4)]
  show "poll_echo 0 (clock w (ticks w)) (clock w (ticks w))
           (w\<lparr>trig := False # True # trig w, ticks := Suc (ticks w)\<rparr>) =
         Some (Done (clock w (ticks w))
                 (w\<lparr>trig := False # True # trig w, ticks := Suc (ticks w),
                    polls := Suc (polls w)\<rparr>))"
    by simp
next
  have r: "rising_seen w 0"
    using assms(3,4) by (simp add: rising_seen_def rising_wait_def)
  show "\<forall>m. falling_seen w 0 m \<longrightarrow>
            map_option fst (read_ultrasonic self w) =
              Some (if 2 \<le> py_round2 ((clock w (ticks w + m) - clock w (ticks w)) * 17150) \<and>
                       py_round2 ((clock w (ticks w + m) - clock w (ticks w)) * 17150) \<le> 400
                    then (py_round2 ((clock w (ticks w + m) - clock w (ticks w)) * 17150), 0)
                    else (0, 3))"
  proof (intro allI impI)
    fix m
    assume f: "falling_seen w 0 m"
    show "map_option fst (read_ultrasonic self w) =
              Some (if 2 \<le> py_round2 ((clock w (ticks w + m) - clock w (ticks w)) * 17150) \<and>
                       py_round2 ((clock w (ticks w + m) - clock w (ticks w)) * 17150) \<le> 400
                    then (py_round2 ((clock w (ticks w + m) - clock w (ticks w)) * 17150), 0)
                    else (0, 3))"
      using read_ultrasonic_measured[OF assms(1,2) r f] by simp
  qed
qed

theorem echo_already_high_witness:
  "ultrasonic_enabled bench_reader \<and>
   trigger_ok (bench_world (echo_pulse 0 3) (\<lambda>k. 7 + real k / 1000)) \<and>
   echo (bench_world (echo_pulse 0 3) (\<lambda>k. 7 + real k / 1000)) 0 = Inr 1 \<and>
   falling_seen (bench_world (echo_pulse 0 3) (\<lambda>k. 7 + real k / 1000)) 0 2 \<and>
   map_option fst
     (read_ultrasonic bench_reader (bench_world (echo_pulse 0 3) (\<lambda>k. 7 + real k / 1000))) =
   Some (343 / 10, 0)"
proof -
  let ?w = "bench_world (echo_pulse 0 3) (\<lambda>k. 7 + real k / 1000)"
  have a: "ultrasonic_enabled bench_reader"
    by (simp add: bench_reader_def SensorReader_init_def)
  have b: "trigger_ok ?w"
    by (simp add: trigger_ok_def bench_world_def)
  have c: "echo ?w (polls ?w) = Inr 1"
    by (simp add: bench_world_def echo_pulse_def)
  have d: "falling_seen ?w 0 2"
    by (simp add: falling_seen_def falling_wait_def bench_world_def echo_pulse_def
          Ball_def less_Suc_eq eval_nat_numeral)
  have r: "py_round2 (343 / 10) = 343 / 10"
    by (simp add: py_round2_def)
  have "map_option fst (read_ultrasonic bench_reader ?w) = Some (343 / 10, 0)"
    using echo_already_high[OF a b c, THEN conjunct2, rule_format, OF _ d] r
    by (simp add: bench_world_def)
  moreover have "echo ?w 0 = Inr 1"
    by (simp add: bench_world_def echo_pulse_def)
  ultimately show ?thesis using a b d by simp
qed




text \<open>
  C1 (as the code has it). For a port whose initialisation succeeded, a failure raised
  during the read that is not the \<^verbatim>\<open>RuntimeError\<close> of the DHT11 is answered with status 2,
  the code of SensorUnavailable, and a zero reading: in \<^verbatim>\<open>read_dht11\<close> for any other
  exception of either property, in \<^verbatim>\<open>read_ina219\<close> for any exception of any of the three
  properties, in \<^verbatim>\<open>read_ultrasonic\<close> for any exception of a write to the trigger pin or of
  a sample of the echo pin.
\<close>

theorem unexpected_failure_status:
  "(temperature dev = Inl OtherException \<or>
    (\<exists>x. temperature dev = Inr x \<and> humidity dev = Inl OtherException) \<longrightarrow>
      read_dht11 (SensorReader_init (Inr dev) ina gpio) = (0, 0, 2)) \<and>
   ((\<exists>e. bus_voltage idev = Inl e \<or> current idev = Inl e \<or> power idev = Inl e) \<longrightarrow>
      read_ina219 (SensorReader_init dht (Inr idev) gpio') = (0, 0, 0, 2)) \<and>
   ((\<not> trigger_ok w) \<or>
    (\<exists>n e. rising_wait w n \<and> echo w (polls w + n) = Inl e) \<or>
    (\<exists>n m e. rising_seen w n \<and> falling_wait w n m \<and> echo w (polls w + n + 1 + m) = Inl e) \<longrightarrow>
      map_option fst (read_ultrasonic (SensorReader_init dht' ina' None) w) = Some (0, 2))"
proof (intro conjI impI)
  assume "temperature dev = Inl OtherException \<or>
    (\<exists>x. temperature dev = Inr x \<and> humidity dev = Inl OtherException)"
  then show "read_dht11 (SensorReader_init (Inr dev) ina gpio) = (0, 0, 2)"
    by (auto simp: read_dht11_def SensorReader_init_def)
next
  assume "\<exists>e. bus_voltage idev = Inl e \<or> current idev = Inl e \<or> power idev = Inl e"
  then show "read_ina219 (SensorReader_init dht (Inr idev) gpio') = (0, 0, 0, 2)"
    by (auto simp: read_ina219_def SensorReader_init_def split: sum.splits)
next
  let ?self = "SensorReader_init dht' ina' None"
  have on: "ultrasonic_enabled ?self"
    by (simp add: SensorReader_init_def)
  assume "(\<not> trigger_ok w) \<or>
    (\<exists>n e. rising_wait w n \<and> echo w (polls w + n) = Inl e) \<or>
    (\<exists>n m e. rising_seen w n \<and> falling_wait w n m \<and> echo w (polls w + n + 1 + m) = Inl e)"
  then consider (trigger) "\<not> trigger_ok w"
    | (rise) n e where "trigger_ok w" "rising_wait w n" "echo w (polls w + n) = Inl e"
    | (fall) n m e where "trigger_ok w" "rising_seen w n" "falling_wait w n m"
        "echo w (polls w + n + 1 + m) = Inl e"
    by blast
  then show "map_option fst (read_ultrasonic ?self w) = Some (0, 2)"
  proof cases
    case trigger
    from read_ultrasonic_trigger_fault[OF on trigger] show ?thesis
      by auto
  next
    case rise
    from read_ultrasonic_rise_raised[OF on rise] show ?thesis
      by simp
  next
    case fall
    from read_ultrasonic_fall_raised[OF on fall] show ?thesis
      by simp
  qed
qed

theorem unexpected_failure_status_witness:
  "read_dht11 (SensorReader_init
      (Inr \<lparr>temperature = Inr (Some 21), humidity = Inl OtherException\<rparr>) (Inr bench_ina) None) =
     (0, 0, 2) \<and>
   read_ina219 (SensorReader_init (Inr bench_dht)
      (Inr (bench_ina\<lparr>current := Inl RuntimeError\<rparr>)) None) = (0, 0, 0, 2) \<and>
   map_option fst
     (read_ultrasonic bench_reader
        (bench_world (\<lambda>k. if k < 2 then Inr 0 else Inl OtherException) (\<lambda>k. real k / 1000))) =
     Some (0, 2)"
proof -
  let ?w = "bench_world (\<lambda>k. if k < 2 then Inr 0 else Inl OtherException) (\<lambda>k. real k / 1000)"
  have r: "rising_wait ?w 2 \<and> echo ?w (polls ?w + 2) = Inl OtherException"
    by (simp add: rising_wait_def bench_world_def Ball_def less_Suc_eq eval_nat_numeral)
  have "read_dht11 (SensorReader_init
      (Inr \<lparr>temperature = Inr (Some 21), humidity = Inl OtherException\<rparr>) (Inr bench_ina) None) =
     (0, 0, 2)"
    using unexpected_failure_status
      [where dev = "\<lparr>temperature = Inr (Some 21), humidity = Inl OtherException\<rparr>",
        THEN conjunct1]
    by simp
  moreover have "read_ina219 (SensorReader_init (Inr bench_dht)
      (Inr (bench_ina\<lparr>current := Inl RuntimeError\<rparr>)) None) = (0, 0, 0, 2)"
    using unexpected_failure_status
      [where idev = "bench_ina\<lparr>current := Inl RuntimeError\<rparr>",
        THEN conjunct2, THEN conjunct1]
    by (simp add: bench_ina_def)
  moreover have "map_option fst (read_ultrasonic bench_reader ?w) = Some (0, 2)"
    unfolding bench_reader_def
    using unexpected_failure_status
      [where w = ?w and dht' = "Inr bench_dht" and ina' = "Inr bench_ina",
        THEN conjunct2, THEN conjunct2] r
    by blast
  ultimately show ?thesis by simp
qed

text \<open>
  C1 as stated fails: a DHT11 whose \<^verbatim>\<open>temperature\<close> raises an exception other than
  \<^verbatim>\<open>RuntimeError\<close>, an INA219 whose \<^verbatim>\<open>current\<close> raises, and an echo pin whose first
  sample raises are all answered with status 2, not 1.
\<close>

theorem unexpected_failure_counterexample:
  "snd (snd (read_dht11 (SensorReader_init
      (Inr \<lparr>temperature = Inl OtherException, humidity = Inr (Some 40)\<rparr>)
      (Inr bench_ina) None))) = 2 \<and>
   snd (snd (read_dht11 (SensorReader_init
      (Inr \<lparr>temperature = Inl OtherException, humidity = Inr (Some 40)\<rparr>)
      (Inr bench_ina) None))) \<noteq> 1 \<and>
   snd (snd (snd (read_ina219 (SensorReader_init (Inr bench_dht)
      (Inr (bench_ina\<lparr>current := Inl OtherException\<rparr>)) None)))) = 2 \<and>
   map_option (\<lambda>r. snd (fst r))
     (read_ultrasonic bench_reader
        (bench_world (\<lambda>k. Inl OtherException) (\<lambda>k. real k / 1000))) = Some 2"
  by (simp add: read_dht11_def read_ina219_def read_ultrasonic_def SensorReader_init_def
        bench_reader_def bench_ina_def bench_world_def GPIO_output_def GPIO_input_def
        time_time_def poll_echo.simps Let_def)

lemma read_dht11_cong: "dht_sensor a = dht_sensor b \<Longrightarrow> read_dht11 a = read_dht11 b"
  by (simp add: read_dht11_def)

lemma read_ina219_cong: "ina219 a = ina219 b \<Longrightarrow> read_ina219 a = read_ina219 b"
  by (simp add: read_ina219_def)

lemma read_ultrasonic_cong:
  "ultrasonic_enabled a = ultrasonic_enabled b \<Longrightarrow> read_ultrasonic a w = read_ultrasonic b w"
  by (simp add: read_ultrasonic_def)

lemma read_all_sensors_Some:
  "read_all_sensors self w = Some ((d, i, u), w') \<longleftrightarrow>
     d = read_dht11 self \<and> i = read_ina219 self \<and> read_ultrasonic self w = Some (u, w')"
  by (auto simp: read_all_sensors_def Let_def split: option.splits)

lemma bench_pulse_read:
  "read_ultrasonic bench_reader (bench_world (echo_pulse 2 3) (\<lambda>k. real k / 1000)) =
     Some ((343 / 10, 0),
           (bench_world (echo_pulse 2 3) (\<lambda>k. real k / 1000))
             \<lparr>trig := [False, True], polls := 6, ticks := 5\<rparr>)"
  by (simp add: read_ultrasonic_def bench_reader_def SensorReader_init_def bench_world_def
        echo_pulse_def GPIO_output_def GPIO_input_def time_time_def poll_echo.simps
        py_round2_def Let_def)

lemma bench_silent_read:
  "read_ultrasonic bench_reader (bench_world (echo_pulse 0 0) (\<lambda>k. real k * 3 / 100)) =
     Some ((0, 1),
           (bench_world (echo_pulse 0 0) (\<lambda>k. real k * 3 / 100))
             \<lparr>trig := [False, True], polls := 4, ticks := 5\<rparr>)"
  by (simp add: read_ultrasonic_def bench_reader_def SensorReader_init_def bench_world_def
        echo_pulse_def GPIO_output_def GPIO_input_def time_time_def poll_echo.simps
        py_round2_def Let_def)

lemma bench_reader_bus:
  "read_dht11 bench_reader = (21, 40, 0)" "read_ina219 bench_reader = (5, - (1 / 4), 5 / 4, 0)"
  by (simp_all add: read_dht11_def read_ina219_def bench_reader_def SensorReader_init_def
        bench_dht_def bench_ina_def)

lemma read_all_sensors_delivers:
  assumes "read_ultrasonic self w = Some (u, w')"
  shows "read_all_sensors self w = Some ((read_dht11 self, read_ina219 self, u), w')"
  using assms by (simp add: read_all_sensors_def)

text \<open>
  C5. The aggregate read delivers each port's own result: whenever the ranging read
  returns, with whatever status, the aggregate read returns the result of \<^verbatim>\<open>read_dht11\<close>,
  the result of \<^verbatim>\<open>read_ina219\<close> and that ranging result, and it returns whenever the clock
  readings grow beyond every bound. The DHT11 result depends on the DHT11 handle only, the
  INA219 result on the INA219 handle only, and the ranging result on the ranging flag and
  the world only; so of two runs that differ in one port's device the other two results
  are the same. In particular a ranging timeout leaves the two other results as they are,
  with status 1 for ranging.
\<close>

theorem ports_independent:
  "(\<forall>u w'. read_ultrasonic a wa = Some (u, w') \<longrightarrow>
      read_all_sensors a wa = Some ((read_dht11 a, read_ina219 a, u), w')) \<and>
   ((\<forall>j T. \<exists>k\<ge>j. T < clock wa k) \<longrightarrow>
      (\<exists>u w'. read_all_sensors a wa = Some ((read_dht11 a, read_ina219 a, u), w'))) \<and>
   (ultrasonic_enabled a \<and> trigger_ok wa \<and> (\<forall>k\<le>n. echo wa (polls wa + k) = Inr 0) \<and>
    clock wa (ticks wa + 1 + n) - clock wa (ticks wa) > 1 / 10 \<longrightarrow>
      map_option fst (read_all_sensors a wa) = Some (read_dht11 a, read_ina219 a, (0, 1))) \<and>
   (dht_sensor a = dht_sensor b \<longrightarrow> read_dht11 a = read_dht11 b) \<and>
   (ina219 a = ina219 b \<longrightarrow> read_ina219 a = read_ina219 b) \<and>
   (ultrasonic_enabled a = ultrasonic_enabled b \<longrightarrow>
      read_ultrasonic a wa = read_ultrasonic b wa) \<and>
   (\<forall>da ia ua wa' db ib ub wb'.
      read_all_sensors a wa = Some ((da, ia, ua), wa') \<and>
      read_all_sensors b wb = Some ((db, ib, ub), wb') \<longrightarrow>
        (dht_sensor a = dht_sensor b \<longrightarrow> da = db) \<and>
        (ina219 a = ina219 b \<longrightarrow> ia = ib) \<and>
        (ultrasonic_enabled a = ultrasonic_enabled b \<and> wa = wb \<longrightarrow> ua = ub \<and> wa' = wb'))"
proof (intro conjI allI impI)
  fix u w'
  assume "read_ultrasonic a wa = Some (u, w')"
  then show "read_all_sensors a wa = Some ((read_dht11 a, read_ina219 a, u), w')"
    by (rule read_all_sensors_delivers)
next
  assume "\<forall>j T. \<exists>k\<ge>j. T < clock wa k"
  from read_ultrasonic_returns[OF this, of a]
  obtain u w' where "read_ultrasonic a wa = Some (u, w')"
    by (metis prod.collapse)
  then show "\<exists>u w'. read_all_sensors a wa = Some ((read_dht11 a, read_ina219 a, u), w')"
    using read_all_sensors_delivers by blast
next
  assume "ultrasonic_enabled a \<and> trigger_ok wa \<and> (\<forall>k\<le>n. echo wa (polls wa + k) = Inr 0) \<and>
    clock wa (ticks wa + 1 + n) - clock wa (ticks wa) > 1 / 10"
  then obtain w' where "read_ultrasonic a wa = Some ((0, 1), w')"
    using read_ultrasonic_no_rise[of a wa n] by blast
  from read_all_sensors_delivers[OF this]
  show "map_option fst (read_all_sensors a wa) = Some (read_dht11 a, read_ina219 a, (0, 1))"
    by simp
next
  assume "dht_sensor a = dht_sensor b"
  then show "read_dht11 a = read_dht11 b"
    by (rule read_dht11_cong)
next
  assume "ina219 a = ina219 b"
  then show "read_ina219 a = read_ina219 b"
    by (rule read_ina219_cong)
next
  assume "ultrasonic_enabled a = ultrasonic_enabled b"
  then show "read_ultrasonic a wa = read_ultrasonic b wa"
    by (rule read_ultrasonic_cong)
next
  fix da ia ua wa' db ib ub wb'
  assume r: "read_all_sensors a wa = Some ((da, ia, ua), wa') \<and>
      read_all_sensors b wb = Some ((db, ib, ub), wb')"
  then have d: "da = read_dht11 a" "db = read_dht11 b"
    and i: "ia = read_ina219 a" "ib = read_ina219 b"
    and u: "read_ultrasonic a wa = Some (ua, wa')" "read_ultrasonic b wb = Some (ub, wb')"
    by (simp_all add: read_all_sensors_Some)
  { assume "dht_sensor a = dht_sensor b"
    then show "da = db"
      unfolding d by (rule read_dht11_cong) }
  { assume "ina219 a = ina219 b"
    then show "ia = ib"
      unfolding i by (rule read_ina219_cong) }
  { assume "ultrasonic_enabled a = ultrasonic_enabled b \<and> wa = wb"
    then have "read_ultrasonic a wa = read_ultrasonic b wb"
      using read_ultrasonic_cong by blast
    with u show "ua = ub" and "wa' = wb'"
      by simp_all }
qed


theorem ports_independent_witness:
  "map_option fst
     (read_all_sensors bench_reader (bench_world (echo_pulse 2 3) (\<lambda>k. real k / 1000))) =
     Some ((21, 40, 0), (5, - (1 / 4), 5 / 4, 0), (343 / 10, 0)) \<and>
   map_option fst
     (read_all_sensors bench_reader (bench_world (echo_pulse 0 0) (\<lambda>k. real k * 3 / 100))) =
     Some ((21, 40, 0), (5, - (1 / 4), 5 / 4, 0), (0, 1)) \<and>
   read_all_sensors bench_reader (bench_world (echo_pulse 0 0) (\<lambda>k. real k * 3 / 100)) \<noteq> None \<and>
   map_option fst
     (read_all_sensors partial_reader (bench_world (echo_pulse 2 3) (\<lambda>k. real k / 1000))) =
     Some ((0, 0, 1), (0, 0, 0, 2), (343 / 10, 0)) \<and>
   read_dht11 (SensorReader_init (Inr bench_dht) (Inl OtherException) (Some OtherException)) =
     (21, 40, 0) \<and>
   read_ina219 (SensorReader_init (Inl OtherException) (Inr bench_ina) None) =
     (5, - (1 / 4), 5 / 4, 0)"
proof -
  let ?p = "bench_world (echo_pulse 2 3) (\<lambda>k. real k / 1000)"
  let ?s = "bench_world (echo_pulse 0 0) (\<lambda>k. real k * 3 / 100)"
  note run = ports_independent[of bench_reader ?p 3 partial_reader ?s]
  note run' = ports_independent[of bench_reader ?s 3 partial_reader ?p]
  have on: "ultrasonic_enabled bench_reader"
    by (simp add: bench_reader_def SensorReader_init_def)
  have flag: "ultrasonic_enabled bench_reader = ultrasonic_enabled partial_reader"
    by (simp add: partial_reader_def bench_reader_def SensorReader_init_def)
  have pd: "read_dht11 partial_reader = (0, 0, 1)"
    by (simp add: read_dht11_def partial_reader_def SensorReader_init_def)
  have pi: "read_ina219 partial_reader = (0, 0, 0, 2)"
    by (simp add: read_ina219_def partial_reader_def SensorReader_init_def bench_ina_def)
  from run[THEN conjunct1, rule_format, OF bench_pulse_read]
  have p: "read_all_sensors bench_reader ?p =
      Some (((21, 40, 0), (5, - (1 / 4), 5 / 4, 0), (343 / 10, 0)),
            ?p\<lparr>trig := [False, True], polls := 6, ticks := 5\<rparr>)"
    by (simp add: bench_reader_bus)
  have ok: "trigger_ok ?s"
    by (simp add: trigger_ok_def bench_world_def)
  have low: "\<forall>k\<le>3. echo ?s (polls ?s + k) = Inr 0"
    by (simp add: bench_world_def echo_pulse_def)
  have late: "clock ?s (ticks ?s + 1 + 3) - clock ?s (ticks ?s) > 1 / 10"
    by (simp add: bench_world_def)
  from run'[THEN conjunct2, THEN conjunct2, THEN conjunct1] on ok low late
  have s: "map_option fst (read_all_sensors bench_reader ?s) =
      Some ((21, 40, 0), (5, - (1 / 4), 5 / 4, 0), (0, 1))"
    by (simp add: bench_reader_bus)
  have "\<forall>j T. \<exists>k\<ge>j. T < clock ?s k"
    using bench_clock_progress by (simp add: bench_world_def)
  with run'[THEN conjunct2, THEN conjunct1]
  obtain u w' where "read_all_sensors bench_reader ?s =
      Some ((read_dht11 bench_reader, read_ina219 bench_reader, u), w')"
    by blast
  then have t: "read_all_sensors bench_reader ?s \<noteq> None"
    by simp
  from run[THEN conjunct2, THEN conjunct2, THEN conjunct2, THEN conjunct2, THEN conjunct2,
      THEN conjunct1] flag
  have "read_ultrasonic partial_reader ?p = read_ultrasonic bench_reader ?p"
    by simp
  then have "read_all_sensors partial_reader ?p =
      Some (((0, 0, 1), (0, 0, 0, 2), (343 / 10, 0)),
            ?p\<lparr>trig := [False, True], polls := 6, ticks := 5\<rparr>)"
    by (simp add: read_all_sensors_def bench_pulse_read pd pi)
  note q = this
  have s': "read_all_sensors bench_reader ?s =
      Some ((read_dht11 bench_reader, read_ina219 bench_reader, (0, 1)),
            ?s\<lparr>trig := [False, True], polls := 4, ticks := 5\<rparr>)"
    using run'[THEN conjunct1, rule_format, OF bench_silent_read] .
  have "read_dht11 bench_reader = (21, 40, 0) \<and>
      read_ina219 bench_reader = (5, - (1 / 4), 5 / 4, 0)"
    using ports_independent[of bench_reader ?p 3 bench_reader ?s, THEN conjunct2,
        THEN conjunct2, THEN conjunct2, THEN conjunct2, THEN conjunct2, THEN conjunct2,
        rule_format, OF conjI[OF p s']]
    by simp
  note bus = this
  have "dht_sensor bench_reader =
      dht_sensor (SensorReader_init (Inr bench_dht) (Inl OtherException) (Some OtherException))"
    by (simp add: bench_reader_def SensorReader_init_def)
  with ports_independent[of bench_reader ?p 3
      "SensorReader_init (Inr bench_dht) (Inl OtherException) (Some OtherException)" ?s,
      THEN conjunct2, THEN conjunct2, THEN conjunct2, THEN conjunct1] bus
  have d: "read_dht11
      (SensorReader_init (Inr bench_dht) (Inl OtherException) (Some OtherException)) =
      (21, 40, 0)"
    by simp
  have "ina219 bench_reader =
      ina219 (SensorReader_init (Inl OtherException) (Inr bench_ina) None)"
    by (simp add: bench_reader_def SensorReader_init_def)
  with ports_independent[of bench_reader ?p 3
      "SensorReader_init (Inl OtherException) (Inr bench_ina) None" ?s,
      THEN conjunct2, THEN conjunct2, THEN conjunct2, THEN conjunct2, THEN conjunct1] bus
  have i: "read_ina219 (SensorReader_init (Inl OtherException) (Inr bench_ina) None) =
      (5, - (1 / 4), 5 / 4, 0)"
    by simp
  from p s t q d i show ?thesis
    by simp
qed

lemma derived_values_fst:
  "fst (derived_values temp_c distance_cm start_time w) =
     (temp_c * 9 / 5 + 32, distance_cm / (254 / 100), clock w (ticks w) - start_time,
      strftime (calendar w (Suc (ticks w))))"
  by (simp add: derived_values_def time_time_def datetime_now_def Let_def)




text \<open>
  C8 (as the code has it). The derived values of the readings \<open>temp_c\<close>, \<open>distance_cm\<close>
  are \<open>temp_c * 9 / 5 + 32\<close>, \<open>distance_cm / 2.54\<close>, the reading of \<^verbatim>\<open>time.time()\<close> minus
  the start time, and the formatted reading of \<^verbatim>\<open>datetime.now()\<close>. So Fahrenheit and
  inches are the same in every computation on the same readings, and two computations on
  the same readings with the same start time agree in every field exactly when their
  readings of \<^verbatim>\<open>time.time()\<close> are equal and their readings of \<^verbatim>\<open>datetime.now()\<close> format
  to the same string.
\<close>

theorem derived_values_clock:
  "fst (derived_values temp_c distance_cm start_time w) =
     (temp_c * 9 / 5 + 32, distance_cm / (254 / 100), clock w (ticks w) - start_time,
      strftime (calendar w (Suc (ticks w)))) \<and>
   fst (fst (derived_values temp_c distance_cm start_time w)) =
     fst (fst (derived_values temp_c distance_cm start_time' w')) \<and>
   fst (snd (fst (derived_values temp_c distance_cm start_time w))) =
     fst (snd (fst (derived_values temp_c distance_cm start_time' w'))) \<and>
   (fst (derived_values temp_c distance_cm start_time w) =
      fst (derived_values temp_c distance_cm start_time w') \<longleftrightarrow>
    clock w (ticks w) = clock w' (ticks w') \<and>
    strftime (calendar w (Suc (ticks w))) = strftime (calendar w' (Suc (ticks w'))))"
  by (simp add: derived_values_fst)

theorem derived_values_clock_witness:
  "fst (derived_values 21 150 0 (bench_world (echo_pulse 2 3) real)) =
     (349 / 5, 7500 / 127, 0, ''2024-03-09 14:05:01'') \<and>
   fst (derived_values 21 150 0 (bench_world (echo_pulse 2 3) real)) =
     fst (derived_values 21 150 0 (bench_world (echo_pulse 0 0) real)) \<and>
   fst (derived_values 21 150 0 (bench_world (echo_pulse 2 3) real)) \<noteq>
     fst (derived_values 21 150 0 (bench_world (echo_pulse 2 3) (\<lambda>k. real k + 1)))"
proof -
  let ?a = "bench_world (echo_pulse 2 3) real"
  let ?b = "bench_world (echo_pulse 0 0) real"
  let ?c = "bench_world (echo_pulse 2 3) (\<lambda>k. real k + 1)"
  have stamp: "strftime (calendar ?a (Suc (ticks ?a))) = ''2024-03-09 14:05:01''"
    by (simp add: bench_world_def bench_calendar_def strftime_def pad2_def pad4_def digit_def)
  have same: "clock ?a (ticks ?a) = clock ?b (ticks ?b) \<and>
      strftime (calendar ?a (Suc (ticks ?a))) = strftime (calendar ?b (Suc (ticks ?b)))"
    by (simp add: bench_world_def)
  have other: "clock ?a (ticks ?a) \<noteq> clock ?c (ticks ?c)"
    by (simp add: bench_world_def)
  from derived_values_clock[of 21 150 0 ?a 0 ?b, THEN conjunct1] stamp
  have one: "fst (derived_values 21 150 0 ?a) =
      (349 / 5, 7500 / 127, 0, ''2024-03-09 14:05:01'')"
    by (simp add: bench_world_def)
  from derived_values_clock[of 21 150 0 ?a 0 ?b] same
  have two: "fst (derived_values 21 150 0 ?a) = fst (derived_values 21 150 0 ?b)"
    by blast
  from derived_values_clock[of 21 150 0 ?a 0 ?c] other
  have three: "fst (derived_values 21 150 0 ?a) \<noteq> fst (derived_values 21 150 0 ?c)"
    by blast
  from one two three show ?thesis by simp
qed

text \<open>
  C8 as stated fails: with a clock that advances by one second from reading to reading, the
  second of two computations on the same readings, run right after the first, gives an
  uptime and a time stamp that are two seconds later.
\<close>

theorem derived_values_counterexample:
  "fst (derived_values 21 150 0 (bench_world (echo_pulse 0 0) real)) =
     (349 / 5, 7500 / 127, 0, ''2024-03-09 14:05:01'') \<and>
   fst (derived_values 21 150 0
          (snd (derived_values 21 150 0 (bench_world (echo_pulse 0 0) real)))) =
     (349 / 5, 7500 / 127, 2, ''2024-03-09 14:05:03'') \<and>
   fst (derived_values 21 150 0 (bench_world (echo_pulse 0 0) real)) \<noteq>
   fst (derived_values 21 150 0
          (snd (derived_values 21 150 0 (bench_world (echo_pulse 0 0) real))))"
  by (simp add: derived_values_def time_time_def datetime_now_def bench_world_def
        bench_calendar_def strftime_def pad2_def pad4_def digit_def Let_def)

end
